theory Spec2Isabelle
  imports Main "HOL-Library.Sublist"
begin

section \<open>Data model of \<open>src/main.js\<close>\<close>

text \<open>
  The server keeps three module-level variables (\<open>cvDataset\<close>, \<open>vectorStore\<close>,
  \<open>isInitialized\<close>), loads a dataset of question/answer records once, indexes it in an
  external vector store, and answers \<open>POST /chat\<close> by composing a prompt and calling an
  external chat-completion provider.

  JavaScript strings are modelled as \<^typ>\<open>string\<close>; only concatenation, equality and
  \<open>trim\<close> are used on them. A variable that is \<open>undefined\<close> until assigned is an
  \<^typ>\<open>'a option\<close>. Everything that can throw returns \<open>error + 'a\<close>, with \<open>Inl\<close> the
  thrown error. Logging (\<open>console.log\<close>, \<open>console.error\<close>) has no effect on any value and
  is left out.
\<close>

datatype error =
    IOError          \<comment> \<open>\<open>fs.readFile\<close> rejects\<close>
  | SyntaxError      \<comment> \<open>\<open>JSON.parse\<close> throws\<close>
  | ProviderError    \<comment> \<open>the embedding, vector-store or completion service rejects\<close>
  | TypeError        \<comment> \<open>a property is read from \<open>undefined\<close> or \<open>null\<close>\<close>

text \<open>One element of \<open>cv_dataset.json\<close>: \<open>{question, answer}\<close>.\<close>

record cv_record =
  question :: string
  answer :: string

text \<open>
  A document of the vector store: the embedded text and the metadata object \<open>{id: i}\<close>
  that \<open>initialize\<close> passes with it.
\<close>

record document =
  pageContent :: string
  metadata_id :: nat

type_synonym vector_store = "document list"

text \<open>A message of a conversation: \<open>{role, content}\<close>. Roles are plain strings in the code.\<close>

record turn =
  role :: string
  content :: string

text \<open>The three globals, lines 30-32.\<close>

record server_state =
  cvDataset :: "cv_record list option"
  vectorStore :: "vector_store option"
  isInitialized :: bool

definition initial_state :: server_state where
  "initial_state = \<lparr>cvDataset = None, vectorStore = None, isInitialized = False\<rparr>"

subsection \<open>External collaborators\<close>

text \<open>
  The file system, the JSON parser, the embedding provider behind \<open>FaissStore.fromTexts\<close>,
  the store's \<open>similaritySearch\<close> and the completion API are not code of this repository.
  They are parameters of the model: each is a function that either fails or returns a value.

  \<open>embedTexts\<close> stands for the embedding calls made inside \<open>FaissStore.fromTexts\<close>; when it
  succeeds the library stores one document per text, each with the metadata object given at
  the same position (\<open>FaissStore_fromTexts\<close> below).
\<close>

record startup_env =
  readFile :: "error + string"
  JSON_parse :: "string \<Rightarrow> error + cv_record list"
  embedTexts :: "string list \<Rightarrow> error + unit"

type_synonym search_provider = "vector_store \<Rightarrow> string \<Rightarrow> nat \<Rightarrow> error + document list"

text \<open>
  A completion response, as far as the handler reads it: \<open>response.choices[i].message.content\<close>,
  where the content of a choice may be \<open>null\<close>.
\<close>

type_synonym completion_response = "string option list"

type_synonym completion_provider = "turn list \<Rightarrow> error + completion_response"

definition FaissStore_fromTexts ::
  "(string list \<Rightarrow> error + unit) \<Rightarrow> string list \<Rightarrow> nat list \<Rightarrow> error + vector_store" where
  "FaissStore_fromTexts embedder texts metadatas =
     (case embedder texts of
        Inl e \<Rightarrow> Inl e
      | Inr _ \<Rightarrow> Inr (map (\<lambda>(t, i). \<lparr>pageContent = t, metadata_id = i\<rparr>) (zip texts metadatas)))"

section \<open>\<open>initialize\<close> (lines 35-53)\<close>

text \<open>
  The search document of a record is the template literal
  \<open>`${item.question} ${item.answer}`\<close>; the metadata of the record at position \<open>i\<close> is
  \<open>{id: i}\<close>.
\<close>

definition search_text :: "cv_record \<Rightarrow> string" where
  "search_text item = question item @ '' '' @ answer item"

text \<open>
  \<open>initialize\<close> returns the thrown error or unit, together with the globals as they are
  when it ends. Each assignment happens only if the awaits before it succeeded; the
  \<open>catch\<close> block rethrows. The dataset is typed: \<open>JSON_parse\<close> yields an array of
  records with both fields, or fails.
\<close>

definition initialize :: "startup_env \<Rightarrow> server_state \<Rightarrow> (error + unit) \<times> server_state" where
  "initialize env s =
     (case readFile env of
        Inl e \<Rightarrow> (Inl e, s)
      | Inr data \<Rightarrow>
          (case JSON_parse env data of
             Inl e \<Rightarrow> (Inl e, s)
           | Inr ds \<Rightarrow>
               (let s1 = s\<lparr>cvDataset := Some ds\<rparr> in
                case FaissStore_fromTexts (embedTexts env) (map search_text ds) [0..<length ds] of
                  Inl e \<Rightarrow> (Inl e, s1)
                | Inr vs \<Rightarrow> (Inr (), s1\<lparr>vectorStore := Some vs, isInitialized := True\<rparr>))))"

section \<open>\<open>findRelevantExamples\<close> (lines 56-68)\<close>

text \<open>
  \<open>cvDataset[i]\<close> is \<open>undefined\<close> when \<open>i\<close> is not an index of the array; it does not throw.
\<close>

definition array_get :: "'a list \<Rightarrow> nat \<Rightarrow> 'a option" where
  "array_get xs i = (if i < length xs then Some (xs ! i) else None)"

text \<open>
  The body of the \<open>try\<close> block: the awaited search, then \<open>results.map\<close>. Reading an element
  of \<open>cvDataset\<close> while that variable is still \<open>undefined\<close> throws a \<open>TypeError\<close>; with no
  result the callback never runs.
\<close>

definition query_body ::
  "search_provider \<Rightarrow> server_state \<Rightarrow> vector_store \<Rightarrow> string \<Rightarrow> nat \<Rightarrow> error + cv_record option list" where
  "query_body sim s vs q numExamples =
     (case sim vs q numExamples of
        Inl e \<Rightarrow> Inl e
      | Inr results \<Rightarrow>
          (case cvDataset s of
             None \<Rightarrow> (if results = [] then Inr [] else Inl TypeError)
           | Some ds \<Rightarrow> Inr (map (\<lambda>result. array_get ds (metadata_id result)) results)))"

definition findRelevantExamples ::
  "search_provider \<Rightarrow> server_state \<Rightarrow> string \<Rightarrow> nat \<Rightarrow> cv_record option list" where
  "findRelevantExamples sim s q numExamples =
     (if \<not> isInitialized s then []
      else case vectorStore s of
             None \<Rightarrow> []
           | Some vs \<Rightarrow>
               (case query_body sim s vs q numExamples of
                  Inl e \<Rightarrow> []
                | Inr examples \<Rightarrow> examples))"

section \<open>\<open>preparePrompt\<close> (lines 71-85)\<close>

definition preamble :: string where
  "preamble = ''Relevant information from Mathieu Vialatte's CV:\<newline>\<newline>''"

definition disclaimer :: string where
  "disclaimer = ''No relevant examples could be found. Please answer to the best of your ability with general information about Mathieu Vialatte.\<newline>\<newline>''"

definition example_block :: "cv_record \<Rightarrow> string" where
  "example_block example =
     ''Q: '' @ question example @ ''\<newline>A: '' @ answer example @ ''\<newline>\<newline>''"

definition question_suffix :: "string \<Rightarrow> string" where
  "question_suffix q = ''Question: '' @ q @ ''\<newline>Answer:''"

text \<open>
  The \<open>forEach\<close> loop: each example appends its block to the prompt; an \<open>undefined\<close> example
  makes \<open>example.question\<close> throw.
\<close>

fun append_examples :: "cv_record option list \<Rightarrow> string \<Rightarrow> error + string" where
  "append_examples [] prompt = Inr prompt"
| "append_examples (None # rest) prompt = Inl TypeError"
| "append_examples (Some example # rest) prompt = append_examples rest (prompt @ example_block example)"

definition preparePrompt :: "search_provider \<Rightarrow> server_state \<Rightarrow> string \<Rightarrow> error + string" where
  "preparePrompt sim s q =
     (if isInitialized s then
        (case append_examples (findRelevantExamples sim s q 3) preamble of
           Inl e \<Rightarrow> Inl e
         | Inr prompt \<Rightarrow> Inr (prompt @ question_suffix q))
      else Inr (preamble @ disclaimer @ question_suffix q))"

section \<open>The \<open>POST /chat\<close> handler (lines 88-130)\<close>

text \<open>
  \<open>String.prototype.trim\<close> removes white space and line terminators at both ends. A
  \<^typ>\<open>char\<close> stands for a code unit below 256, so the white space of that range is
  listed; the code points above it that JavaScript also strips have no counterpart in
  \<^typ>\<open>string\<close>.
\<close>

definition is_js_space :: "char \<Rightarrow> bool" where
  "is_js_space c =
     (c = CHR 0x09 \<or> c = CHR 0x0A \<or> c = CHR 0x0B \<or> c = CHR 0x0C \<or> c = CHR 0x0D \<or>
      c = CHR 0x20 \<or> c = CHR 0xA0)"

definition trim :: "string \<Rightarrow> string" where
  "trim s = rev (dropWhile is_js_space (rev (dropWhile is_js_space s)))"

text \<open>
  The request body after destructuring: \<open>message\<close>, and \<open>conversationHistory\<close>, which is
  \<open>undefined\<close> when the client sends none.
\<close>

record chat_request =
  message :: string
  conversationHistory :: "turn list option"

text \<open>
  The HTTP reply: the status, the \<open>response\<close> field of the JSON body, and its
  \<open>conversationHistory\<close> field, which the failure body does not have.
\<close>

record http_reply =
  status :: nat
  response :: string
  returned_history :: "turn list option"

text \<open>
  What one run of the handler does: the reply it sends, the contents of the
  \<open>conversationHistory\<close> array when the handler ends (the handler pushes onto that array in
  place), and the message sequences given to \<open>openai.chat.completions.create\<close>, in order.
  The other fields of the completion request (model, token limit, sampling parameters) are
  literals of the source.
\<close>

record chat_outcome =
  reply :: http_reply
  history_after :: "turn list"
  submitted :: "turn list list"

definition system_content :: string where
  "system_content = ''You are a virtual assistant specialized in answering questions about Mathieu Vialatte's CV. \<newline>        Use only the information provided in the examples or in the question to answer. \<newline>        If information is not available, clearly state so. \<newline>        Focus on Mathieu's skills, experience, and achievements. \<newline>        Respond concisely and professionally.''"

definition fullConversation :: "turn list \<Rightarrow> string \<Rightarrow> turn list" where
  "fullConversation history prompt =
     [\<lparr>role = ''system'', content = system_content\<rparr>] @ history @
     [\<lparr>role = ''user'', content = prompt\<rparr>]"

text \<open>
  \<open>response.choices[0].message.content.trim()\<close>: a \<open>TypeError\<close> when there is no first
  choice or its content is \<open>null\<close>.
\<close>

fun aiResponse_of :: "completion_response \<Rightarrow> error + string" where
  "aiResponse_of [] = Inl TypeError"
| "aiResponse_of (None # rest) = Inl TypeError"
| "aiResponse_of (Some text # rest) = Inr (trim text)"

definition error_message :: string where
  "error_message = ''Sorry, an error occurred while processing your request.''"

definition failure_reply :: http_reply where
  "failure_reply = \<lparr>status = 500, response = error_message, returned_history = None\<rparr>"

text \<open>The destructuring default: \<open>conversationHistory = []\<close>.\<close>

definition supplied_history :: "chat_request \<Rightarrow> turn list" where
  "supplied_history req = (case conversationHistory req of None \<Rightarrow> [] | Some h \<Rightarrow> h)"

definition chat ::
  "search_provider \<Rightarrow> completion_provider \<Rightarrow> server_state \<Rightarrow> chat_request \<Rightarrow> chat_outcome" where
  "chat sim create s req =
     (let history = supplied_history req in
      case preparePrompt sim s (message req) of
        Inl e \<Rightarrow> \<lparr>reply = failure_reply, history_after = history, submitted = []\<rparr>
      | Inr prompt \<Rightarrow>
          (let full = fullConversation history prompt in
           case create full of
             Inl e \<Rightarrow> \<lparr>reply = failure_reply, history_after = history, submitted = [full]\<rparr>
           | Inr resp \<Rightarrow>
               (case aiResponse_of resp of
                  Inl e \<Rightarrow> \<lparr>reply = failure_reply, history_after = history, submitted = [full]\<rparr>
                | Inr aiResponse \<Rightarrow>
                    (let history' = history @ [\<lparr>role = ''user'', content = message req\<rparr>]
                                            @ [\<lparr>role = ''assistant'', content = aiResponse\<rparr>]
                     in \<lparr>reply = \<lparr>status = 200, response = aiResponse,
                                   returned_history = Some history'\<rparr>,
                         history_after = history', submitted = [full]\<rparr>))))"

section \<open>Startup (lines 141-150)\<close>

text \<open>
  \<open>initialize().then(listen).catch(exit)\<close>: the process either listens, with the globals
  \<open>initialize\<close> left, or has exited with code 1. Only a listening process handles
  requests. No handler assigns a global, so the requests of a run all see the globals of the
  end of startup, in whatever order their awaits interleave.
\<close>

datatype phase = Listening | Exited nat

record process =
  phase :: phase
  globals :: server_state

definition startup :: "startup_env \<Rightarrow> process" where
  "startup env =
     (case initialize env initial_state of
        (Inl e, s) \<Rightarrow> \<lparr>phase = Exited 1, globals = s\<rparr>
      | (Inr u, s) \<Rightarrow> \<lparr>phase = Listening, globals = s\<rparr>)"

definition serve ::
  "search_provider \<Rightarrow> completion_provider \<Rightarrow> process \<Rightarrow> chat_request list \<Rightarrow> chat_outcome list" where
  "serve sim create p reqs =
     (case phase p of
        Listening \<Rightarrow> map (chat sim create (globals p)) reqs
      | Exited code \<Rightarrow> [])"

section \<open>Concrete inputs\<close>

text \<open>
  A one-record dataset, environments in which startup succeeds or fails, and providers that
  answer or reject. They are the inputs at which the theorems below are instantiated.
\<close>

definition example_dataset :: "cv_record list" where
  "example_dataset =
     [\<lparr>question = ''What languages does Mathieu know?'', answer = ''Python, JavaScript, Go.''\<rparr>]"

definition example_env :: startup_env where
  "example_env =
     \<lparr>readFile = Inr ''[]'', JSON_parse = (\<lambda>data. Inr example_dataset),
      embedTexts = (\<lambda>texts. Inr ())\<rparr>"

definition unreadable_env :: startup_env where
  "unreadable_env =
     \<lparr>readFile = Inl IOError, JSON_parse = (\<lambda>data. Inr example_dataset),
      embedTexts = (\<lambda>texts. Inr ())\<rparr>"

definition ready_state :: server_state where
  "ready_state = globals (startup example_env)"

definition nearest_first :: search_provider where
  "nearest_first vs q k = Inr (take k vs)"

definition failing_search :: search_provider where
  "failing_search vs q k = Inl ProviderError"

definition fixed_completion :: completion_provider where
  "fixed_completion messages = Inr [Some '' Python, JavaScript and Go. '']"

definition failing_completion :: completion_provider where
  "failing_completion messages = Inl ProviderError"

definition example_request :: chat_request where
  "example_request =
     \<lparr>message = ''Hi'',
      conversationHistory = Some [\<lparr>role = ''user'', content = ''Hello''\<rparr>,
                                  \<lparr>role = ''assistant'', content = ''Hello, ask me about the CV.''\<rparr>]\<rparr>"

text \<open>
  Two providers that tell one message sequence from every other: the first answers that
  sequence alone, the second rejects that sequence alone. The sequence is the one the
  handler builds for \<open>example_request\<close> on \<open>ready_state\<close>.
\<close>

definition answering_only :: "turn list \<Rightarrow> completion_provider" where
  "answering_only expected messages =
     (if messages = expected then Inr [Some ''Python, JavaScript and Go.''] else Inl ProviderError)"

definition rejecting_only :: "turn list \<Rightarrow> completion_provider" where
  "rejecting_only expected messages =
     (if messages = expected then Inl ProviderError else Inr [Some ''Python, JavaScript and Go.''])"

definition example_conversation :: "turn list" where
  "example_conversation =
     [\<lparr>role = ''system'', content = system_content\<rparr>,
      \<lparr>role = ''user'', content = ''Hello''\<rparr>,
      \<lparr>role = ''assistant'', content = ''Hello, ask me about the CV.''\<rparr>,
      \<lparr>role = ''user'',
       content = preamble @ example_block (hd example_dataset) @ question_suffix ''Hi''\<rparr>]"

section \<open>Properties\<close>

lemma append_examples_defined:
  "None \<notin> set xs \<Longrightarrow> append_examples xs p = Inr (p @ concat (map (example_block \<circ> the) xs))"
  by (induction xs p rule: append_examples.induct) auto




lemma preparePrompt_returns:
  assumes "\<forall>x \<in> set (findRelevantExamples sim s q 3). x \<noteq> None"
  shows "\<exists>p. preparePrompt sim s q = Inr p"
proof -
  from assms have "None \<notin> set (findRelevantExamples sim s q 3)"
    by blast
  from append_examples_defined [OF this, of preamble] show ?thesis
    by (simp add: preparePrompt_def)
qed


lemma startup_example:
  "startup example_env =
     \<lparr>phase = Listening,
      globals = \<lparr>cvDataset = Some example_dataset,
                 vectorStore = Some [\<lparr>pageContent = search_text (hd example_dataset), metadata_id = 0\<rparr>],
                 isInitialized = True\<rparr>\<rparr>"
  by (simp add: startup_def initialize_def example_env_def initial_state_def
      FaissStore_fromTexts_def example_dataset_def)

lemma ready_state_eq:
  "ready_state = \<lparr>cvDataset = Some example_dataset,
                 vectorStore = Some [\<lparr>pageContent = search_text (hd example_dataset), metadata_id = 0\<rparr>],
                 isInitialized = True\<rparr>"
  by (simp add: ready_state_def startup_example)

lemma ready_isInitialized: "isInitialized ready_state"
  by (simp add: ready_state_eq)

lemma ready_vectorStore:
  "vectorStore ready_state = Some [\<lparr>pageContent = search_text (hd example_dataset), metadata_id = 0\<rparr>]"
  by (simp add: ready_state_eq)

lemma find_example:
  "findRelevantExamples nearest_first ready_state q 3 = [Some (hd example_dataset)]"
  by (simp add: findRelevantExamples_def ready_state_eq query_body_def nearest_first_def
      array_get_def example_dataset_def)



lemma query_body_search_error: "sim vs q k = Inl e \<Longrightarrow> query_body sim s vs q k = Inl e"
  by (simp add: query_body_def)

text \<open>
  Claim C4. \<open>findRelevantExamples\<close> returns the empty array when the readiness flag is
  false, when there is no vector store, when \<open>similaritySearch\<close> rejects, and when anything
  else in the \<open>try\<close> block throws; its result is an array in every case, never an error.
\<close>
theorem findRelevantExamples_empty_on_failure:
  assumes "\<not> isInitialized s \<or> vectorStore s = None
           \<or> (\<exists>vs e. vectorStore s = Some vs \<and> (sim vs q k = Inl e \<or> query_body sim s vs q k = Inl e))"
  shows "findRelevantExamples sim s q k = []"
  using assms
  by (auto simp: findRelevantExamples_def query_body_search_error split: option.splits)

theorem findRelevantExamples_empty_on_failure_witness:
  "findRelevantExamples nearest_first initial_state ''Hi'' 3 = []
   \<and> findRelevantExamples failing_search ready_state ''Hi'' 3 = []"
proof -
  have a: "\<not> isInitialized initial_state"
    by (simp add: initial_state_def)
  have b: "vectorStore ready_state = Some [\<lparr>pageContent = search_text (hd example_dataset), metadata_id = 0\<rparr>]
           \<and> failing_search [\<lparr>pageContent = search_text (hd example_dataset), metadata_id = 0\<rparr>] ''Hi'' 3 = Inl ProviderError"
    by (simp add: ready_vectorStore failing_search_def)
  show ?thesis
    using findRelevantExamples_empty_on_failure [of initial_state nearest_first "''Hi''" 3] a
      findRelevantExamples_empty_on_failure [of ready_state failing_search "''Hi''" 3] b
    by blast
qed




lemma find_failing: "findRelevantExamples failing_search ready_state q k = []"
  by (simp add: findRelevantExamples_def ready_state_eq query_body_def failing_search_def)


lemma disclaimer_has_b: "CHR ''b'' \<in> set disclaimer"
  by (simp add: disclaimer_def)

lemma sublist_set: "sublist xs ys \<Longrightarrow> set xs \<subseteq> set ys"
  by (auto simp: sublist_def)

text \<open>
  Claim C3 as stated fails. The server is ready, the search rejects, and the prompt for the
  question \<open>Hi\<close> is the preamble followed by the question suffix; the fallback sentence
  occurs nowhere in it, and it differs from the fallback prompt.
\<close>
theorem query_error_prompt_counterexample:
  "isInitialized ready_state
   \<and> vectorStore ready_state = Some [\<lparr>pageContent = search_text (hd example_dataset), metadata_id = 0\<rparr>]
   \<and> failing_search [\<lparr>pageContent = search_text (hd example_dataset), metadata_id = 0\<rparr>] ''Hi'' 3 = Inl ProviderError
   \<and> preparePrompt failing_search ready_state ''Hi'' = Inr (preamble @ question_suffix ''Hi'')
   \<and> \<not> sublist disclaimer (preamble @ question_suffix ''Hi'')
   \<and> preamble @ question_suffix ''Hi'' \<noteq> preamble @ disclaimer @ question_suffix ''Hi''"
proof -
  have "CHR ''b'' \<notin> set (preamble @ question_suffix ''Hi'')"
    by (simp add: preamble_def question_suffix_def)
  with disclaimer_has_b sublist_set have "\<not> sublist disclaimer (preamble @ question_suffix ''Hi'')"
    by blast
  moreover have "preparePrompt failing_search ready_state ''Hi'' = Inr (preamble @ question_suffix ''Hi'')"
    by (simp add: preparePrompt_def find_failing ready_isInitialized)
  moreover have "disclaimer \<noteq> []"
    by (simp add: disclaimer_def)
  ultimately show ?thesis
    by (simp add: ready_isInitialized ready_vectorStore failing_search_def)
qed

text \<open>
  Claim C3, amended. When the readiness flag is true and the query throws, the error is
  recovered inside \<open>findRelevantExamples\<close> (the retrieval is empty) and \<open>preparePrompt\<close>
  goes on to return the preamble followed at once by the question suffix. The fallback
  sentence is guarded by the readiness flag alone.
\<close>
theorem query_error_recovered:
  assumes "isInitialized s" and "vectorStore s = Some vs" and "query_body sim s vs q 3 = Inl e"
  shows "findRelevantExamples sim s q 3 = []
         \<and> preparePrompt sim s q = Inr (preamble @ question_suffix q)"
  using assms by (simp add: preparePrompt_def findRelevantExamples_def)

theorem query_error_recovered_witness:
  "findRelevantExamples failing_search ready_state ''Hi'' 3 = []
   \<and> preparePrompt failing_search ready_state ''Hi'' = Inr (preamble @ question_suffix ''Hi'')"
  using query_error_recovered [of ready_state
      "[\<lparr>pageContent = search_text (hd example_dataset), metadata_id = 0\<rparr>]" failing_search "''Hi''" ProviderError]
  by (simp add: ready_isInitialized ready_vectorStore query_body_def failing_search_def)


lemma chat_prompt_error:
  "preparePrompt sim s (message req) = Inl e \<Longrightarrow>
   chat sim create s req =
     \<lparr>reply = failure_reply, history_after = supplied_history req, submitted = []\<rparr>"
  by (simp add: chat_def Let_def)

lemma chat_create_error:
  "preparePrompt sim s (message req) = Inr prompt \<Longrightarrow>
   create (fullConversation (supplied_history req) prompt) = Inl e \<Longrightarrow>
   chat sim create s req =
     \<lparr>reply = failure_reply, history_after = supplied_history req,
      submitted = [fullConversation (supplied_history req) prompt]\<rparr>"
  by (simp add: chat_def Let_def)

lemma chat_malformed:
  "preparePrompt sim s (message req) = Inr prompt \<Longrightarrow>
   create (fullConversation (supplied_history req) prompt) = Inr resp \<Longrightarrow>
   aiResponse_of resp = Inl e \<Longrightarrow>
   chat sim create s req =
     \<lparr>reply = failure_reply, history_after = supplied_history req,
      submitted = [fullConversation (supplied_history req) prompt]\<rparr>"
  by (simp add: chat_def Let_def)

lemma chat_ok:
  "preparePrompt sim s (message req) = Inr prompt \<Longrightarrow>
   create (fullConversation (supplied_history req) prompt) = Inr resp \<Longrightarrow>
   aiResponse_of resp = Inr aiResponse \<Longrightarrow>
   chat sim create s req =
     \<lparr>reply = \<lparr>status = 200, response = aiResponse,
               returned_history = Some (supplied_history req
                 @ [\<lparr>role = ''user'', content = message req\<rparr>,
                    \<lparr>role = ''assistant'', content = aiResponse\<rparr>])\<rparr>,
      history_after = supplied_history req
                 @ [\<lparr>role = ''user'', content = message req\<rparr>,
                    \<lparr>role = ''assistant'', content = aiResponse\<rparr>],
      submitted = [fullConversation (supplied_history req) prompt]\<rparr>"
  by (simp add: chat_def Let_def)

lemma failure_status: "status failure_reply = 500"
  by (simp add: failure_reply_def)

text \<open>
  Claim C1. When the handler replies with status 200, the prompt was composed, the provider
  answered, and the returned history is the supplied history followed by exactly two turns:
  a \<open>user\<close> turn with the raw message and an \<open>assistant\<close> turn with the trimmed text of
  the first choice, which is also the \<open>response\<close> field.
\<close>
theorem chat_success_appends_two_turns:
  assumes "status (reply (chat sim create s req)) = 200"
  shows "\<exists>prompt resp aiResponse.
           preparePrompt sim s (message req) = Inr prompt
           \<and> create (fullConversation (supplied_history req) prompt) = Inr resp
           \<and> aiResponse_of resp = Inr aiResponse
           \<and> response (reply (chat sim create s req)) = aiResponse
           \<and> returned_history (reply (chat sim create s req)) =
               Some (supplied_history req
                     @ [\<lparr>role = ''user'', content = message req\<rparr>,
                        \<lparr>role = ''assistant'', content = aiResponse\<rparr>])"
proof (cases "preparePrompt sim s (message req)")
  case (Inl e)
  from chat_prompt_error [OF Inl] assms show ?thesis
    by (simp add: failure_status)
next
  case (Inr prompt)
  show ?thesis
  proof (cases "create (fullConversation (supplied_history req) prompt)")
    case (Inl e)
    from chat_create_error [of sim s req prompt create e] Inr Inl assms show ?thesis
      by (simp add: failure_status)
  next
    case resp: (Inr resp)
    show ?thesis
    proof (cases "aiResponse_of resp")
      case (Inl e)
      from chat_malformed [of sim s req prompt create resp e] Inr resp Inl assms show ?thesis
        by (simp add: failure_status)
    next
      case ai: (Inr aiResponse)
      from chat_ok [of sim s req prompt create resp aiResponse] Inr resp ai show ?thesis
        by simp
    qed
  qed
qed

lemma prompt_example:
  "preparePrompt nearest_first ready_state q =
     Inr (preamble @ example_block (hd example_dataset) @ question_suffix q)"
  by (simp add: preparePrompt_def find_example ready_isInitialized)

lemma trim_example: "trim '' Python, JavaScript and Go. '' = ''Python, JavaScript and Go.''"
  by (simp add: trim_def is_js_space_def)

lemma chat_example_status:
  "status (reply (chat nearest_first fixed_completion ready_state example_request)) = 200"
  by (simp add: chat_def Let_def prompt_example fixed_completion_def)

theorem chat_success_appends_two_turns_witness:
  "\<exists>aiResponse.
     response (reply (chat nearest_first fixed_completion ready_state example_request)) = aiResponse
     \<and> returned_history (reply (chat nearest_first fixed_completion ready_state example_request)) =
         Some ([\<lparr>role = ''user'', content = ''Hello''\<rparr>,
                \<lparr>role = ''assistant'', content = ''Hello, ask me about the CV.''\<rparr>]
               @ [\<lparr>role = ''user'', content = ''Hi''\<rparr>,
                  \<lparr>role = ''assistant'', content = aiResponse\<rparr>])"
  using chat_success_appends_two_turns [OF chat_example_status]
  by (auto simp: example_request_def supplied_history_def)

text \<open>
  Claim C2. When the call to the completion provider throws, the reply is status 500 with
  the fixed message and no history field, and the \<open>conversationHistory\<close> array is as the
  client supplied it: both \<open>push\<close> calls come after the awaited call.
\<close>
theorem chat_provider_failure_keeps_history:
  assumes "preparePrompt sim s (message req) = Inr prompt"
    and "create (fullConversation (supplied_history req) prompt) = Inl e"
  shows "reply (chat sim create s req) =
           \<lparr>status = 500,
            response = ''Sorry, an error occurred while processing your request.'',
            returned_history = None\<rparr>
         \<and> history_after (chat sim create s req) = supplied_history req"
  using chat_create_error [of sim s req prompt create e] assms by (simp add: failure_reply_def error_message_def)

theorem chat_provider_failure_keeps_history_witness:
  "reply (chat nearest_first failing_completion ready_state example_request) =
     \<lparr>status = 500,
      response = ''Sorry, an error occurred while processing your request.'',
      returned_history = None\<rparr>
   \<and> history_after (chat nearest_first failing_completion ready_state example_request) =
       [\<lparr>role = ''user'', content = ''Hello''\<rparr>,
        \<lparr>role = ''assistant'', content = ''Hello, ask me about the CV.''\<rparr>]"
  using chat_provider_failure_keeps_history [of nearest_first ready_state example_request
      "preamble @ example_block (hd example_dataset) @ question_suffix ''Hi''"
      failing_completion ProviderError]
  by (simp add: prompt_example failing_completion_def example_request_def supplied_history_def)

text \<open>
  Claim C7. Once the prompt is composed, the argument of the one call to the completion
  provider is the system turn, then the turns of the request's \<open>conversationHistory\<close> in
  order (none when the field is absent), then one \<open>user\<close> turn whose content is the composed
  prompt. The reply is decided by what the provider does at exactly that sequence: a
  rejection there gives the 500 reply, an answer there gives the 200 reply with the trimmed
  text of its first choice, and two providers that agree on that one sequence give the same
  outcome whatever they do elsewhere.
\<close>
theorem chat_provider_receives_full_conversation:
  assumes prompt: "preparePrompt sim s (message req) = Inr prompt"
    and hist: "history = (case conversationHistory req of None \<Rightarrow> [] | Some h \<Rightarrow> h)"
    and full: "full = \<lparr>role = ''system'', content = system_content\<rparr> # history
                      @ [\<lparr>role = ''user'', content = prompt\<rparr>]"
  shows "submitted (chat sim create s req) = [full]
    \<and> (\<forall>e. create full = Inl e \<longrightarrow>
          reply (chat sim create s req) =
            \<lparr>status = 500, response = error_message, returned_history = None\<rparr>)
    \<and> (\<forall>resp e. create full = Inr resp \<and> aiResponse_of resp = Inl e \<longrightarrow>
          reply (chat sim create s req) =
            \<lparr>status = 500, response = error_message, returned_history = None\<rparr>)
    \<and> (\<forall>resp aiResponse. create full = Inr resp \<and> aiResponse_of resp = Inr aiResponse \<longrightarrow>
          reply (chat sim create s req) =
            \<lparr>status = 200, response = aiResponse,
             returned_history = Some (history @ [\<lparr>role = ''user'', content = message req\<rparr>,
                                                 \<lparr>role = ''assistant'', content = aiResponse\<rparr>])\<rparr>)
    \<and> (\<forall>create'. create' full = create full \<longrightarrow>
          chat sim create' s req = chat sim create s req)"
proof -
  have h: "supplied_history req = history"
    by (simp add: supplied_history_def hist)
  have f: "fullConversation (supplied_history req) prompt = full"
    by (simp add: fullConversation_def h full)
  have unfold: "chat sim c s req =
      (case c full of
         Inl e \<Rightarrow> \<lparr>reply = failure_reply, history_after = history, submitted = [full]\<rparr>
       | Inr resp \<Rightarrow>
           (case aiResponse_of resp of
              Inl e \<Rightarrow> \<lparr>reply = failure_reply, history_after = history, submitted = [full]\<rparr>
            | Inr aiResponse \<Rightarrow>
                \<lparr>reply = \<lparr>status = 200, response = aiResponse,
                          returned_history = Some (history @ [\<lparr>role = ''user'', content = message req\<rparr>,
                                                 \<lparr>role = ''assistant'', content = aiResponse\<rparr>])\<rparr>,
                 history_after = history @ [\<lparr>role = ''user'', content = message req\<rparr>,
                                                 \<lparr>role = ''assistant'', content = aiResponse\<rparr>],
                 submitted = [full]\<rparr>))" for c
    using prompt f h by (simp add: chat_def Let_def split: sum.splits)
  have sub: "submitted (chat sim create s req) = [full]"
    by (simp add: unfold split: sum.splits)
  have same: "chat sim create' s req = chat sim create s req" if "create' full = create full" for create'
    using that by (simp add: unfold)
  show ?thesis
    using sub same by (simp add: unfold failure_reply_def)
qed

lemma example_prompt_Hi:
  "preparePrompt nearest_first ready_state (message example_request) =
     Inr (preamble @ example_block (hd example_dataset) @ question_suffix ''Hi'')"
  by (simp add: prompt_example example_request_def)

text \<open>
  A provider that answers the expected sequence alone is answered with 200, and one that
  rejects the expected sequence alone with 500.
\<close>
theorem chat_provider_receives_full_conversation_witness:
  "submitted (chat nearest_first (answering_only example_conversation) ready_state example_request)
     = [example_conversation]
   \<and> status (reply (chat nearest_first (answering_only example_conversation) ready_state example_request)) = 200
   \<and> status (reply (chat nearest_first (rejecting_only example_conversation) ready_state example_request)) = 500"
proof -
  have hist: "[\<lparr>role = ''user'', content = ''Hello''\<rparr>,
              \<lparr>role = ''assistant'', content = ''Hello, ask me about the CV.''\<rparr>]
             = (case conversationHistory example_request of None \<Rightarrow> [] | Some h \<Rightarrow> h)"
    by (simp add: example_request_def)
  have full: "example_conversation =
      \<lparr>role = ''system'', content = system_content\<rparr>
      # [\<lparr>role = ''user'', content = ''Hello''\<rparr>,
         \<lparr>role = ''assistant'', content = ''Hello, ask me about the CV.''\<rparr>]
      @ [\<lparr>role = ''user'',
          content = preamble @ example_block (hd example_dataset) @ question_suffix ''Hi''\<rparr>]"
    by (simp add: example_conversation_def)
  have a: "answering_only example_conversation example_conversation = Inr [Some ''Python, JavaScript and Go.'']"
    by (simp add: answering_only_def)
  have r: "rejecting_only example_conversation example_conversation = Inl ProviderError"
    by (simp add: rejecting_only_def)
  have t: "aiResponse_of [Some ''Python, JavaScript and Go.''] = Inr ''Python, JavaScript and Go.''"
    by (simp add: trim_def is_js_space_def)
  note ans = chat_provider_receives_full_conversation [OF example_prompt_Hi hist full,
      of "answering_only example_conversation"]
  note rej = chat_provider_receives_full_conversation [OF example_prompt_Hi hist full,
      of "rejecting_only example_conversation"]
  have "submitted (chat nearest_first (answering_only example_conversation) ready_state example_request)
          = [example_conversation]"
    by (rule ans [THEN conjunct1])
  moreover from ans [THEN conjunct2, THEN conjunct2, THEN conjunct2, THEN conjunct1] a t
  have "reply (chat nearest_first (answering_only example_conversation) ready_state example_request) =
          \<lparr>status = 200, response = ''Python, JavaScript and Go.'',
           returned_history = Some ([\<lparr>role = ''user'', content = ''Hello''\<rparr>,
              \<lparr>role = ''assistant'', content = ''Hello, ask me about the CV.''\<rparr>]
             @ [\<lparr>role = ''user'', content = message example_request\<rparr>,
                \<lparr>role = ''assistant'', content = ''Python, JavaScript and Go.''\<rparr>])\<rparr>"
    by blast
  moreover from rej [THEN conjunct2, THEN conjunct1] r
  have "reply (chat nearest_first (rejecting_only example_conversation) ready_state example_request) =
          \<lparr>status = 500, response = error_message, returned_history = None\<rparr>"
    by blast
  ultimately show ?thesis
    by simp
qed

lemma initialize_success:
  assumes "initialize env s0 = (Inr (), s)"
  shows "\<exists>data ds. readFile env = Inr data \<and> JSON_parse env data = Inr ds
           \<and> embedTexts env (map search_text ds) = Inr ()
           \<and> s = s0\<lparr>cvDataset := Some ds,
                    vectorStore := Some (map (\<lambda>(t, i). \<lparr>pageContent = t, metadata_id = i\<rparr>)
                                           (zip (map search_text ds) [0..<length ds])),
                    isInitialized := True\<rparr>"
  using assms
  by (auto simp: initialize_def FaissStore_fromTexts_def Let_def split: sum.splits)

lemma initialize_failure:
  assumes "initialize env s0 = (Inl e, s)"
  shows "\<not> isInitialized s0 \<Longrightarrow> \<not> isInitialized s"
  using assms
  by (auto simp: initialize_def FaissStore_fromTexts_def Let_def split: sum.splits)

lemma built_store_ids:
  "map metadata_id (map (\<lambda>(t, i). \<lparr>pageContent = t, metadata_id = i\<rparr>)
                      (zip (map search_text ds) [0..<length ds])) = [0..<length ds]"
  by (rule nth_equalityI) simp_all

lemma built_store_texts:
  "map pageContent (map (\<lambda>(t, i). \<lparr>pageContent = t, metadata_id = i\<rparr>)
                      (zip (map search_text ds) [0..<length ds])) = map search_text ds"
  by (rule nth_equalityI) simp_all

lemma built_store_member:
  assumes "d \<in> set (map (\<lambda>(t, i). \<lparr>pageContent = t, metadata_id = i\<rparr>)
                      (zip (map search_text ds) [0..<length ds]))"
  shows "metadata_id d < length ds \<and> search_text (ds ! metadata_id d) = pageContent d"
proof -
  from assms obtain n where "n < length ds"
    and "d = \<lparr>pageContent = search_text (ds ! n), metadata_id = n\<rparr>"
    by (auto simp: in_set_conv_nth)
  then show ?thesis by simp
qed

lemma stored_results_in_corpus:
  assumes init: "initialize env s0 = (Inr (), s)"
    and store: "vectorStore s = Some vs"
    and stored: "set results \<subseteq> set vs"
  shows "\<exists>ds. cvDataset s = Some ds \<and> isInitialized s
           \<and> map metadata_id vs = [0..<length ds]
           \<and> map pageContent vs = map search_text ds
           \<and> (\<forall>result \<in> set results.
                 metadata_id result < length ds
                 \<and> search_text (ds ! metadata_id result) = pageContent result)"
proof -
  from initialize_success [OF init] obtain ds where
    s: "s = s0\<lparr>cvDataset := Some ds,
              vectorStore := Some (map (\<lambda>(t, i). \<lparr>pageContent = t, metadata_id = i\<rparr>)
                                     (zip (map search_text ds) [0..<length ds])),
              isInitialized := True\<rparr>"
    by blast
  with store have vs: "vs = map (\<lambda>(t, i). \<lparr>pageContent = t, metadata_id = i\<rparr>)
                                     (zip (map search_text ds) [0..<length ds])"
    by simp
  have corpus: "cvDataset s = Some ds" and ready: "isInitialized s"
    using s by simp_all
  have member: "metadata_id r < length ds \<and> search_text (ds ! metadata_id r) = pageContent r"
    if "r \<in> set results" for r
    using that stored built_store_member [of r ds] vs by blast
  have "map metadata_id vs = [0..<length ds]"
    unfolding vs by (rule built_store_ids)
  moreover have "map pageContent vs = map search_text ds"
    unfolding vs by (rule built_store_texts)
  ultimately show ?thesis
    using corpus ready member by auto
qed

lemma examples_of_results:
  assumes "isInitialized s" and "vectorStore s = Some vs" and "cvDataset s = Some ds"
    and "sim vs q k = Inr results"
    and "\<forall>result \<in> set results. metadata_id result < length ds"
  shows "findRelevantExamples sim s q k = map (\<lambda>result. Some (ds ! metadata_id result)) results"
  using assms by (simp add: findRelevantExamples_def query_body_def array_get_def)

text \<open>
  Claim C8. After a successful \<open>initialize\<close> the stored metadata ids are \<open>0, 1, ..., N - 1\<close>
  in the order of the corpus, and the stored texts are the records' \<open>question answer\<close>
  strings in the same order. For every search that returns documents of the store,
  \<open>findRelevantExamples\<close> maps each result to \<open>cvDataset[id]\<close>, the id is an index of the
  corpus, and the record found there is the one whose text was embedded.
\<close>
theorem result_ids_dereference:
  assumes init: "initialize env s0 = (Inr (), s)"
    and store: "vectorStore s = Some vs"
    and search: "sim vs q k = Inr results"
    and stored: "set results \<subseteq> set vs"
  shows "\<exists>ds. cvDataset s = Some ds
           \<and> map metadata_id vs = [0..<length ds]
           \<and> map pageContent vs = map search_text ds
           \<and> findRelevantExamples sim s q k = map (\<lambda>result. Some (ds ! metadata_id result)) results
           \<and> (\<forall>result \<in> set results.
                 metadata_id result < length ds
                 \<and> search_text (ds ! metadata_id result) = pageContent result)"
proof -
  from stored_results_in_corpus [OF init store stored] obtain ds where
    ds: "cvDataset s = Some ds" "isInitialized s"
      "map metadata_id vs = [0..<length ds]" "map pageContent vs = map search_text ds"
      "\<forall>result \<in> set results. metadata_id result < length ds
          \<and> search_text (ds ! metadata_id result) = pageContent result"
    by blast
  then have "findRelevantExamples sim s q k = map (\<lambda>result. Some (ds ! metadata_id result)) results"
    using examples_of_results [of s vs ds sim q k results] store search by blast
  with ds show ?thesis
    by blast
qed

lemma initialize_example:
  "initialize example_env initial_state =
     (Inr (), \<lparr>cvDataset = Some example_dataset,
               vectorStore = Some [\<lparr>pageContent = search_text (hd example_dataset), metadata_id = 0\<rparr>],
               isInitialized = True\<rparr>)"
  by (simp add: initialize_def example_env_def initial_state_def
      FaissStore_fromTexts_def example_dataset_def)

text \<open>The spec's scenario: one record, and the query returns it.\<close>
theorem result_ids_dereference_witness:
  "findRelevantExamples nearest_first ready_state ''What programming languages?'' 1
     = [Some (hd example_dataset)]
   \<and> search_text (hd example_dataset) = ''What languages does Mathieu know? Python, JavaScript, Go.''"
proof -
  let ?doc = "\<lparr>pageContent = search_text (hd example_dataset), metadata_id = 0\<rparr>"
  have init: "initialize example_env initial_state = (Inr (), ready_state)"
    by (simp add: initialize_example ready_state_eq)
  have search: "nearest_first [?doc] ''What programming languages?'' 1 = Inr [?doc]"
    by (simp add: nearest_first_def)
  from result_ids_dereference [of example_env initial_state ready_state "[?doc]" nearest_first
      "''What programming languages?''" 1 "[?doc]"] init ready_vectorStore search
  obtain ds where "cvDataset ready_state = Some ds"
    and "findRelevantExamples nearest_first ready_state ''What programming languages?'' 1
           = [Some (ds ! 0)]"
    by auto
  moreover have "cvDataset ready_state = Some example_dataset"
    by (simp add: ready_state_eq)
  ultimately have "findRelevantExamples nearest_first ready_state ''What programming languages?'' 1
           = [Some (example_dataset ! 0)]"
    by simp
  then show ?thesis
    by (simp add: example_dataset_def search_text_def)
qed

lemma startup_listening:
  "phase (startup env) = Listening \<longleftrightarrow> fst (initialize env initial_state) = Inr ()"
  by (cases "initialize env initial_state") (auto simp: startup_def split: sum.splits)

lemma startup_globals: "globals (startup env) = snd (initialize env initial_state)"
  by (cases "initialize env initial_state") (auto simp: startup_def split: sum.splits)

text \<open>
  Claim C9. The process listens only if the dataset was read and parsed and the index was
  built, and then all three globals are set and the readiness flag is true; if
  \<open>initialize\<close> throws, the process exits with code 1 and serves no request; every request
  that is served is handled by \<open>chat\<close> on globals whose readiness flag is true.
\<close>
theorem listen_only_after_initialize:
  "(phase (startup env) = Listening \<longrightarrow>
      (\<exists>data ds vs. readFile env = Inr data \<and> JSON_parse env data = Inr ds
         \<and> embedTexts env (map search_text ds) = Inr ()
         \<and> globals (startup env) = \<lparr>cvDataset = Some ds, vectorStore = Some vs, isInitialized = True\<rparr>))
   \<and> (\<forall>e. fst (initialize env initial_state) = Inl e \<longrightarrow>
         phase (startup env) = Exited 1 \<and> serve sim create (startup env) reqs = [])
   \<and> (serve sim create (startup env) reqs \<noteq> [] \<longrightarrow>
         isInitialized (globals (startup env))
         \<and> serve sim create (startup env) reqs = map (chat sim create (globals (startup env))) reqs)"
proof (cases "initialize env initial_state")
  case (Pair r s)
  show ?thesis
  proof (cases r)
    case (Inl e)
    with Pair show ?thesis
      by (simp add: startup_def serve_def)
  next
    case (Inr u)
    with Pair have init: "initialize env initial_state = (Inr (), s)"
      by simp
    from initialize_success [OF init] obtain data ds vs where
      "readFile env = Inr data" "JSON_parse env data = Inr ds"
      "embedTexts env (map search_text ds) = Inr ()"
      "s = \<lparr>cvDataset = Some ds, vectorStore = Some vs, isInitialized = True\<rparr>"
      by (auto simp: initial_state_def)
    with init show ?thesis
      by (simp add: startup_def serve_def)
  qed
qed

theorem listen_only_after_initialize_witness:
  "phase (startup example_env) = Listening
   \<and> isInitialized (globals (startup example_env))
   \<and> serve nearest_first fixed_completion (startup example_env) [example_request]
       = [chat nearest_first fixed_completion (globals (startup example_env)) example_request]
   \<and> fst (initialize unreadable_env initial_state) = Inl IOError
   \<and> phase (startup unreadable_env) = Exited 1
   \<and> serve nearest_first fixed_completion (startup unreadable_env) [example_request] = []"
proof -
  have a: "phase (startup example_env) = Listening"
    by (simp add: startup_def initialize_example)
  then have b: "serve nearest_first fixed_completion (startup example_env) [example_request] \<noteq> []"
    by (simp add: serve_def)
  have c: "fst (initialize unreadable_env initial_state) = Inl IOError"
    by (simp add: initialize_def unreadable_env_def)
  from a b listen_only_after_initialize [of example_env nearest_first fixed_completion "[example_request]"]
    c listen_only_after_initialize [of unreadable_env nearest_first fixed_completion "[example_request]"]
  show ?thesis
    by simp
qed

lemma preparePrompt_after_initialize:
  assumes init: "initialize env s0 = (Inr (), s)" and store: "vectorStore s = Some vs"
    and contract: "\<And>results. sim vs q 3 = Inr results \<Longrightarrow> set results \<subseteq> set vs"
  shows "\<exists>p. preparePrompt sim s q = Inr p"
proof (cases "sim vs q 3")
  case (Inl e)
  with store have "findRelevantExamples sim s q 3 = []"
    by (simp add: findRelevantExamples_def query_body_def)
  then show ?thesis
    using preparePrompt_returns [of sim s q] by simp
next
  case (Inr results)
  from stored_results_in_corpus [OF init store contract [OF Inr]] obtain ds where
    ds: "cvDataset s = Some ds" "isInitialized s"
      "\<forall>result \<in> set results. metadata_id result < length ds"
    by blast
  from examples_of_results [of s vs ds sim q 3 results] ds store Inr
  have "\<forall>x \<in> set (findRelevantExamples sim s q 3). x \<noteq> None"
    by auto
  then show ?thesis
    by (rule preparePrompt_returns)
qed

end
